theory Spec2Isabelle
  imports Complex_Main
begin

section \<open>Activation-addition optimisation: data preparation, loss and training loop\<close>

text \<open>
  A shallow embedding of \<^verbatim>\<open>algebraic_value_editing/optimize.py\<close> and of the word-count
  metric of \<^verbatim>\<open>algebraic_value_editing/metrics.py\<close>.

  Conventions.
  \<^item> Python integers are \<open>int\<close>; tensor entries that are floating-point numbers are
    modelled as \<open>real\<close> (rounding is outside the model), and the one place where the code
    can produce a not-a-number, the normalisation by \<open>numel\<close>, is a constructor of its own.
  \<^item> Every exception is a value: a fallible function returns \<open>error + 'a\<close>, with \<open>Inl\<close>
    the exception raised.
  \<^item> The language model, the tokenizer, the random generators, the optimiser and the
    logging backend are collaborators of the code, not part of it: they are parameters.
\<close>

subsection \<open>Exceptions\<close>

datatype error =
    RuntimeError      \<comment> \<open>raised by the tensor library (shape mismatch, bad range, empty concat)\<close>
  | IndexError        \<comment> \<open>index or mask out of range\<close>
  | AssertionError    \<comment> \<open>a failed \<^verbatim>\<open>assert\<close>\<close>
  | ValueError        \<comment> \<open>\<^verbatim>\<open>range\<close> with step 0, a data loader with a non-positive batch size\<close>
  | FileExistsError   \<comment> \<open>\<^verbatim>\<open>os.mkdir\<close> of a directory that exists\<close>
  | OSError           \<comment> \<open>any other failure of the file system\<close>
  | KeyError          \<comment> \<open>a missing dictionary key, a hook site the model does not have\<close>
  | AttributeError    \<comment> \<open>the name of the current run when no run is active\<close>
  | ZeroDivisionError \<comment> \<open>the mean loss of an epoch without a batch\<close>
  | ModelError        \<comment> \<open>whatever the model's forward or backward pass raises\<close>

fun bind_err :: "error + 'a \<Rightarrow> ('a \<Rightarrow> error + 'b) \<Rightarrow> error + 'b" where
  "bind_err (Inl e) f = Inl e"
| "bind_err (Inr x) f = f x"

fun map_err :: "('a \<Rightarrow> error + 'b) \<Rightarrow> 'a list \<Rightarrow> error + 'b list" where
  "map_err f [] = Inr []"
| "map_err f (x # xs) =
     (case f x of
        Inl e \<Rightarrow> Inl e
      | Inr y \<Rightarrow> (case map_err f xs of Inl e \<Rightarrow> Inl e | Inr ys \<Rightarrow> Inr (y # ys)))"

subsection \<open>Windowing: \<^verbatim>\<open>corpus_to_token_batches\<close>\<close>

text \<open>
  \<^verbatim>\<open>torch.arange(start, end, step)\<close>: the values \<open>start, start + step, \<dots>\<close> strictly before
  \<open>end\<close>. The library refuses a zero step and a bound on the wrong side of the start
  (``upper bound and larger bound inconsistent with step sign'').
\<close>

definition arange :: "int \<Rightarrow> int \<Rightarrow> int \<Rightarrow> error + int list" where
  "arange start end step =
     (if step = 0 then Inl RuntimeError
      else if (0 < step \<and> start \<le> end) \<or> (step < 0 \<and> end \<le> start)
      then Inr (map (\<lambda>k. start + int k * step)
                  [0 ..< nat ((\<bar>end - start\<bar> + \<bar>step\<bar> - 1) div \<bar>step\<bar>)])
      else Inl RuntimeError)"

text \<open>
  Indexing a one-dimensional tensor with an integer: an index in \<open>[-n, n)\<close> is accepted,
  a negative one counting from the end; any other raises.
\<close>

definition index1 :: "'a list \<Rightarrow> int \<Rightarrow> error + 'a" where
  "index1 xs i =
     (if 0 \<le> i \<and> i < int (length xs) then Inr (xs ! nat i)
      else if i < 0 \<and> - int (length xs) \<le> i then Inr (xs ! nat (int (length xs) + i))
      else Inl IndexError)"

text \<open>
  Lines 50--55 for one label, \<open>tokens_row\<close> being \<^verbatim>\<open>tokens[0, :]\<close>:
  \<^verbatim>\<open>inds = arange(context_len)[None, :] + arange(0, N - context_len, stride)[:, None]\<close>
  and \<^verbatim>\<open>token_snippets = tokens[0, :][inds]\<close>.
\<close>

definition window_inds :: "nat \<Rightarrow> int \<Rightarrow> int \<Rightarrow> error + int list list" where
  "window_inds N context_len stride =
     bind_err (arange 0 context_len 1) (\<lambda>cols.
     bind_err (arange 0 (int N - context_len) stride) (\<lambda>offsets.
     Inr (map (\<lambda>off. map (\<lambda>c. c + off) cols) offsets)))"

definition token_snippets :: "'a list \<Rightarrow> int \<Rightarrow> int \<Rightarrow> error + 'a list list" where
  "token_snippets tokens_row context_len stride =
     bind_err (window_inds (length tokens_row) context_len stride)
       (map_err (map_err (index1 tokens_row)))"

text \<open>
  The loop over the labels (lines 49--58). \<open>grouped_texts\<close> is the per-label text that
  pandas' \<^verbatim>\<open>groupby(...).agg(eos.join)\<close> produced, \<open>to_tokens\<close> the model's tokenizer
  (row 0 of its result). The resulting dictionary is an association list in insertion
  order.
\<close>

fun dict_set :: "('k \<times> 'v) list \<Rightarrow> 'k \<Rightarrow> 'v \<Rightarrow> ('k \<times> 'v) list" where
  "dict_set [] k v = [(k, v)]"
| "dict_set ((k', v') # kvs) k v =
     (if k' = k then (k', v) # kvs else (k', v') # dict_set kvs k v)"

fun corpus_loop ::
  "(string \<Rightarrow> 'a list) \<Rightarrow> int \<Rightarrow> int \<Rightarrow> (string \<times> string) list \<Rightarrow>
   (string \<times> 'a list list) list \<Rightarrow> error + (string \<times> 'a list list) list" where
  "corpus_loop to_tokens context_len stride [] tokens_by_label = Inr tokens_by_label"
| "corpus_loop to_tokens context_len stride ((label, text) # rest) tokens_by_label =
     (case token_snippets (to_tokens text) context_len stride of
        Inl e \<Rightarrow> Inl e
      | Inr snips \<Rightarrow>
          corpus_loop to_tokens context_len stride rest (dict_set tokens_by_label label snips))"

definition corpus_to_token_batches ::
  "(string \<Rightarrow> 'a list) \<Rightarrow> (string \<times> string) list \<Rightarrow> int \<Rightarrow> int \<Rightarrow>
   error + (string \<times> 'a list list) list" where
  "corpus_to_token_batches to_tokens grouped_texts context_len stride =
     corpus_loop to_tokens context_len stride grouped_texts []"

subsection \<open>Two-dimensional tensors\<close>

text \<open>
  A tensor of shape \<open>(n, c)\<close> is its column count and its \<open>n\<close> rows; the column count is
  kept apart because a tensor with no rows still has one. A tensor of the library is
  rectangular: \<open>wf_mat\<close>.
\<close>

datatype 'a mat = Mat (ncols: nat) (rows: "'a list list")

definition nrows :: "'a mat \<Rightarrow> nat" where
  "nrows m = length (rows m)"

definition numel :: "'a mat \<Rightarrow> nat" where
  "numel m = nrows m * ncols m"

definition wf_mat :: "'a mat \<Rightarrow> bool" where
  "wf_mat m = list_all (\<lambda>r. length r = ncols m) (rows m)"

text \<open>
  \<^verbatim>\<open>torch.concat(ms, dim=0)\<close> of two-dimensional tensors: the list must not be empty and the
  column counts must agree. Of one-dimensional tensors: the list must not be empty.
\<close>

definition concat0 :: "'a mat list \<Rightarrow> error + 'a mat" where
  "concat0 ms =
     (case ms of
        [] \<Rightarrow> Inl RuntimeError
      | m # _ \<Rightarrow>
          if list_all (\<lambda>m'. ncols m' = ncols m) ms
          then Inr (Mat (ncols m) (concat (map rows ms)))
          else Inl RuntimeError)"

definition concat1 :: "'a list list \<Rightarrow> error + 'a list" where
  "concat1 vs = (case vs of [] \<Rightarrow> Inl RuntimeError | _ # _ \<Rightarrow> Inr (concat vs))"

text \<open>Python's \<^verbatim>\<open>range(start, stop, step)\<close>.\<close>

definition py_range :: "int \<Rightarrow> int \<Rightarrow> int \<Rightarrow> error + int list" where
  "py_range start stop step =
     (if step = 0 then Inl ValueError
      else if 0 < step
      then Inr (map (\<lambda>k. start + int k * step) [0 ..< nat ((stop - start + step - 1) div step)])
      else Inr (map (\<lambda>k. start + int k * step) [0 ..< nat ((start - stop - step - 1) div (- step))]))"

text \<open>
  The row slice \<^verbatim>\<open>m[a:b, :]\<close> for the bounds \<open>0 \<le> a \<le> b\<close> the code passes; a bound past the
  last row is clipped.
\<close>

definition slice_rows :: "int \<Rightarrow> int \<Rightarrow> 'a mat \<Rightarrow> 'a mat" where
  "slice_rows a b m = Mat (ncols m) (take (nat (b - a)) (drop (nat a) (rows m)))"

subsection \<open>\<^verbatim>\<open>AlignedTokensDataset\<close>\<close>

record dataset =
  tokens :: "int mat"
  aligned :: "int list"
  normal_loss :: "real mat option"

text \<open>Lines 81--86: the alignment value of a label.\<close>

definition aligned_val :: "string list \<Rightarrow> string list option \<Rightarrow> string \<Rightarrow> int" where
  "aligned_val aligned_labels opposed_labels label =
     (if label \<in> set aligned_labels then 1
      else if opposed_labels \<noteq> None \<and> label \<in> set (the opposed_labels) then - 1
      else 0)"

text \<open>
  Lines 79--89: the loop over the dictionary, appending the label's token tensor and a
  vector of its alignment value shaped like \<^verbatim>\<open>tokens[:, 0]\<close>, which raises on a tensor with
  no column.
\<close>

fun label_loop ::
  "string list \<Rightarrow> string list option \<Rightarrow> (string \<times> int mat) list \<Rightarrow>
   error + (int mat list \<times> int list list)" where
  "label_loop aligned_labels opposed_labels [] = Inr ([], [])"
| "label_loop aligned_labels opposed_labels ((label, toks) # rest) =
     (if ncols toks = 0 then Inl IndexError
      else case label_loop aligned_labels opposed_labels rest of
             Inl e \<Rightarrow> Inl e
           | Inr (tokens_list, aligned_list) \<Rightarrow>
               Inr (toks # tokens_list,
                    replicate (nrows toks) (aligned_val aligned_labels opposed_labels label)
                      # aligned_list))"

text \<open>
  Lines 97--117: the baseline losses, batch by batch, through the model's forward pass
  \<open>model\<close> (per-token loss of a batch of token rows, or an exception).
\<close>

definition baseline_losses ::
  "(int mat \<Rightarrow> error + real mat) \<Rightarrow> int \<Rightarrow> int mat \<Rightarrow> error + real mat" where
  "baseline_losses model batch_size toks =
     bind_err (py_range 0 (int (nrows toks)) batch_size) (\<lambda>starts.
     bind_err (map_err (\<lambda>start_idx. model (slice_rows start_idx (start_idx + batch_size) toks))
                 starts) (\<lambda>normal_losses_list.
     bind_err (concat0 normal_losses_list) (\<lambda>nl.
     if nrows toks = nrows nl then Inr nl else Inl AssertionError)))"

definition AlignedTokensDataset ::
  "(string \<times> int mat) list \<Rightarrow> string list \<Rightarrow> string list option \<Rightarrow>
   (int mat \<Rightarrow> error + real mat) option \<Rightarrow> int \<Rightarrow> error + dataset" where
  "AlignedTokensDataset tokens_by_label aligned_labels opposed_labels model batch_size =
     bind_err (label_loop aligned_labels opposed_labels tokens_by_label)
       (\<lambda>(tokens_list, aligned_list).
     bind_err (concat0 tokens_list) (\<lambda>toks.
     bind_err (concat1 aligned_list) (\<lambda>alg.
     if nrows toks \<noteq> length alg then Inl AssertionError
     else case model of
            None \<Rightarrow> Inr \<lparr>tokens = toks, aligned = alg, normal_loss = None\<rparr>
          | Some m \<Rightarrow>
              bind_err (baseline_losses m batch_size toks) (\<lambda>nl.
              Inr \<lparr>tokens = toks, aligned = alg, normal_loss = Some nl\<rparr>))))"




subsection \<open>The injection hook\<close>

text \<open>
  An activation tensor of shape \<open>(batch, pos, d)\<close>: the two inner sizes, and for every batch
  element its \<open>pos\<close> rows of \<open>d\<close> components.
\<close>

datatype 'a act = Act (n_pos: nat) (d_act: nat) (entries: "'a list list list")


text \<open>
  The in-place addition of a vector to a row of \<open>d\<close> components, as the tensor library
  broadcasts it: a vector of \<open>d\<close> components is added component by component, a vector of
  one component is added to every component, any other length raises.
\<close>

definition add_row :: "'a::plus list \<Rightarrow> 'a list \<Rightarrow> error + 'a list" where
  "add_row row v =
     (if length v = length row then Inr (map (\<lambda>(x, y). x + y) (zip row v))
      else case v of
             [y] \<Rightarrow> Inr (map (\<lambda>x. x + y) row)
           | _ \<Rightarrow> Inl RuntimeError)"

text \<open>
  \<^verbatim>\<open>hook_fn\<close> (lines 208--211): \<^verbatim>\<open>activation[:, 0, :] += steering_vector\<close>, then the
  activation is returned. Selecting position 0 of a tensor with no position raises. The
  entries may be of any type with an addition, floating-point numbers included.
\<close>

definition hook_fn :: "'a::plus list \<Rightarrow> 'a act \<Rightarrow> error + 'a act" where
  "hook_fn steering_vector activation =
     (if n_pos activation = 0 then Inl IndexError
      else if length steering_vector \<noteq> d_act activation \<and> length steering_vector \<noteq> 1
      then Inl RuntimeError
      else bind_err
             (map_err (\<lambda>b. case b of
                              [] \<Rightarrow> Inr []
                            | r # rs \<Rightarrow> bind_err (add_row r steering_vector) (\<lambda>r'. Inr (r' # rs)))
                (entries activation))
             (\<lambda>es. Inr (Act (n_pos activation) (d_act activation) es)))"

subsection \<open>The loss of a mini-batch\<close>

text \<open>
  Broadcasting of two sizes: equal, or one of them 1; and the expansion of a list of one
  element to a size.
\<close>

definition bdim :: "nat \<Rightarrow> nat \<Rightarrow> nat option" where
  "bdim a b = (if a = b then Some a else if a = 1 then Some b else if b = 1 then Some a else None)"

definition expand :: "nat \<Rightarrow> 'a list \<Rightarrow> 'a list" where
  "expand n xs = (if length xs = n then xs else concat (replicate n xs))"

text \<open>\<^verbatim>\<open>a - b\<close> on two-dimensional tensors, element-wise with broadcasting.\<close>

definition tsub :: "real mat \<Rightarrow> real mat \<Rightarrow> error + real mat" where
  "tsub a b =
     (case (bdim (nrows a) (nrows b), bdim (ncols a) (ncols b)) of
        (Some r, Some c) \<Rightarrow>
          Inr (Mat c (map (\<lambda>(ra, rb). map (\<lambda>(x, y). x - y) (zip (expand c ra) (expand c rb)))
                        (zip (expand r (rows a)) (expand r (rows b)))))
      | _ \<Rightarrow> Inl RuntimeError)"

text \<open>
  \<^verbatim>\<open>m[tags == v, :]\<close>: the rows of \<open>m\<close> whose tag is \<open>v\<close>; a mask of another length than the
  row count raises.
\<close>

definition select_rows :: "int \<Rightarrow> int list \<Rightarrow> real mat \<Rightarrow> error + real mat" where
  "select_rows v tags m =
     (if length tags \<noteq> nrows m then Inl IndexError
      else Inr (Mat (ncols m) (map snd (filter (\<lambda>(t, r). t = v) (zip tags (rows m))))))"

definition tsum :: "real mat \<Rightarrow> real" where
  "tsum m = sum_list (concat (rows m))"

definition tabs :: "real mat \<Rightarrow> real mat" where
  "tabs m = Mat (ncols m) (map (map abs) (rows m))"

text \<open>
  A scalar the training loop computes: a number, or the not-a-number that the division of
  a zero sum by a zero count gives.
\<close>

datatype scalar = Num real | NaN

text \<open>
  Lines 240--254: the three terms of the loss, in the order the code adds them: the sum
  over the aligned rows, minus the sum over the opposed rows, and the neutral penalty.
\<close>

definition loss_terms ::
  "string \<Rightarrow> real \<Rightarrow> real mat \<Rightarrow> int list \<Rightarrow> error + (real \<times> real \<times> real)" where
  "loss_terms neutral_loss_method neutral_loss_beta relative_loss tags =
     bind_err (select_rows 1 tags relative_loss) (\<lambda>al.
     bind_err (select_rows (- 1) tags relative_loss) (\<lambda>op.
     bind_err (select_rows 0 tags relative_loss) (\<lambda>ne.
     Inr (tsum al, - tsum op,
          (if neutral_loss_method = ''abs_of_mean''
           then neutral_loss_beta * \<bar>tsum ne\<bar>
           else neutral_loss_beta * tsum (tabs ne))))))"

text \<open>
  Lines 238--256: the relative loss, the sum of the three terms, and the division by
  \<^verbatim>\<open>relative_loss.numel()\<close>. With no entry at all every sum is 0 and the division is 0/0.
\<close>

definition batch_loss ::
  "string \<Rightarrow> real \<Rightarrow> real mat \<Rightarrow> real mat \<Rightarrow> int list \<Rightarrow> error + scalar" where
  "batch_loss neutral_loss_method neutral_loss_beta loss_per_token baseline_loss tags =
     bind_err (tsub loss_per_token baseline_loss) (\<lambda>relative_loss.
     bind_err (loss_terms neutral_loss_method neutral_loss_beta relative_loss tags)
       (\<lambda>(t_aligned, t_opposed, t_neutral).
     Inr (if numel relative_loss = 0 then NaN
          else Num ((t_aligned + t_opposed + t_neutral) / real (numel relative_loss)))))"




subsection \<open>The world of a training run\<close>

text \<open>
  What \<^verbatim>\<open>learn_activation_addition\<close> reads and changes outside its own variables:
  \<^item> the model's registry of forward hooks. A hook is a closure: it may read tensors that
    are mutated after it was made (as \<^verbatim>\<open>hook_fn\<close> reads the steering vector), so it is a
    function of the heap of tensors;
  \<^item> the heap of parameter tensors, a tensor being addressed by its index;
  \<^item> the state of the global random generator;
  \<^item> the local directories and the checkpoint files written into them, a file
    \<^verbatim>\<open><dir>/steering_vector_epoch_<epoch>.pt\<close> being named by its directory and its epoch;
  \<^item> the logging backend: the active run, the number of runs started, the logged steps.
\<close>

type_synonym heap = "real list list"

type_synonym closure = "heap \<Rightarrow> real act \<Rightarrow> error + real act"

record world =
  fwd_hooks :: "(string \<times> closure) list"
  heap :: heap
  global_rng :: nat
  dirs :: "string list"
  files :: "((string \<times> nat) \<times> real list) list"
  active_run :: "string option"
  runs_started :: nat
  wandb_log :: "(nat \<times> scalar) list"

text \<open>
  The collaborators, as parameters: the model (its hook sites, its width, its forward pass
  under the hooks in force, the gradient of the training loss with respect to the tensor
  at an address), the random generators (seeding, normal samples, permutations), the
  optimiser's update and the names the logging backend gives to runs.
\<close>

type_synonym opt_state = "nat \<times> real list \<times> real list"

record env =
  hook_points :: "string list"
  d_model :: nat
  forward :: "(string \<times> (real act \<Rightarrow> error + real act)) list \<Rightarrow> int mat \<Rightarrow> error + real mat"
  backward :: "(string \<times> closure) list \<Rightarrow> heap \<Rightarrow> nat \<Rightarrow> int mat \<Rightarrow> real mat \<Rightarrow> int list
               \<Rightarrow> error + real list"
  seed_state :: "int \<Rightarrow> nat"
  randn :: "nat \<Rightarrow> nat \<Rightarrow> real list \<times> nat"
  randperm :: "nat \<Rightarrow> nat \<Rightarrow> nat list \<times> nat"
  adamw :: "real \<Rightarrow> real \<Rightarrow> opt_state \<Rightarrow> real list \<Rightarrow> real list \<Rightarrow> real list \<times> opt_state"
  run_name_of :: "nat \<Rightarrow> string"

text \<open>A computation on the world that returns a value or raises, the world kept on both.\<close>

type_synonym 'a io = "world \<Rightarrow> (error + 'a) \<times> world"

definition return_io :: "'a \<Rightarrow> 'a io" where
  "return_io x w = (Inr x, w)"

definition raise_io :: "error \<Rightarrow> 'a io" where
  "raise_io e w = (Inl e, w)"

definition bind_io :: "'a io \<Rightarrow> ('a \<Rightarrow> 'b io) \<Rightarrow> 'b io" where
  "bind_io m f w = (case m w of (Inl e, w') \<Rightarrow> (Inl e, w') | (Inr x, w') \<Rightarrow> f x w')"

definition lift_io :: "error + 'a \<Rightarrow> 'a io" where
  "lift_io r w = (r, w)"

definition modify_io :: "(world \<Rightarrow> world) \<Rightarrow> unit io" where
  "modify_io f w = (Inr (), f w)"

text \<open>
  Python's \<^verbatim>\<open>with\<close> statement: \<open>enter\<close>, then the body, then \<open>exit\<close> whether the body
  returned or raised; what the body raised is raised again after \<open>exit\<close>.
\<close>

definition with_io :: "'c io \<Rightarrow> ('c \<Rightarrow> world \<Rightarrow> world) \<Rightarrow> ('c \<Rightarrow> 'a io) \<Rightarrow> 'a io" where
  "with_io enter exit body w =
     (case enter w of
        (Inl e, w1) \<Rightarrow> (Inl e, w1)
      | (Inr c, w1) \<Rightarrow> (case body c w1 of (r, w2) \<Rightarrow> (r, exit c w2)))"

text \<open>A loop over a list that carries a value and stops at the first exception.\<close>

fun foldM_io :: "('s \<Rightarrow> 'x \<Rightarrow> 's io) \<Rightarrow> 's \<Rightarrow> 'x list \<Rightarrow> 's io" where
  "foldM_io f s [] = return_io s"
| "foldM_io f s (x # xs) = bind_io (f s x) (\<lambda>s'. foldM_io f s' xs)"

text \<open>
  The context manager \<^verbatim>\<open>model.hooks(fwd_hooks=[(name, hook)])\<close> of the model library, by
  its contract: on entry the hook is registered at the named site (a name that is no hook
  site of the model raises), on exit the hook registered last is removed again.
\<close>

definition hooks_enter :: "env \<Rightarrow> string \<Rightarrow> closure \<Rightarrow> unit io" where
  "hooks_enter E name hook w =
     (if name \<in> set (hook_points E)
      then (Inr (), w\<lparr>fwd_hooks := fwd_hooks w @ [(name, hook)]\<rparr>)
      else (Inl KeyError, w))"

definition hooks_exit :: "unit \<Rightarrow> world \<Rightarrow> world" where
  "hooks_exit u w = w\<lparr>fwd_hooks := butlast (fwd_hooks w)\<rparr>"

text \<open>The forward pass of the model under the hooks in force, each reading the heap.\<close>

definition run_model :: "env \<Rightarrow> world \<Rightarrow> int mat \<Rightarrow> error + real mat" where
  "run_model E w toks = forward E (map (\<lambda>(name, h). (name, h (heap w))) (fwd_hooks w)) toks"

subsection \<open>\<^verbatim>\<open>learn_activation_addition\<close>\<close>

text \<open>
  Lines 157--185: with logging, a run is started (finishing the run that was active), a
  directory named after it is made, which raises when it exists, and the run is the
  context manager; without, the context manager does nothing.
\<close>

definition start_logging :: "env \<Rightarrow> bool \<Rightarrow> string option io" where
  "start_logging E use_wandb w =
     (if use_wandb
      then let run_name = run_name_of E (runs_started w);
               w1 = w\<lparr>active_run := Some run_name, runs_started := Suc (runs_started w)\<rparr>
           in if run_name \<in> set (dirs w1) then (Inl FileExistsError, w1)
              else (Inr (Some run_name), w1\<lparr>dirs := dirs w1 @ [run_name]\<rparr>)
      else (Inr None, w))"

definition manager_exit :: "string option \<Rightarrow> world \<Rightarrow> world" where
  "manager_exit run w = (case run of None \<Rightarrow> w | Some _ \<Rightarrow> w\<lparr>active_run := None\<rparr>)"

text \<open>Lines 282--283: \<^verbatim>\<open>shutil.rmtree(run_name)\<close>, the directory and the files in it.\<close>

definition checkpoint_path :: "string \<Rightarrow> nat \<Rightarrow> string \<times> nat" where
  "checkpoint_path run_name epoch = (run_name, epoch)"

definition rmtree :: "string option \<Rightarrow> unit io" where
  "rmtree run w =
     (case run of
        None \<Rightarrow> (Inr (), w)
      | Some run_name \<Rightarrow>
          if run_name \<in> set (dirs w)
          then (Inr (), w\<lparr>dirs := removeAll run_name (dirs w),
                          files := filter (\<lambda>(p, t). fst p \<noteq> run_name) (files w)\<rparr>)
          else (Inl OSError, w))"

text \<open>
  The items of a batch (\<^verbatim>\<open>__getitem__\<close> and the loader's collation): the token rows, the
  tags and the baseline-loss rows at the indices of the batch.
\<close>

definition get_rows :: "'a mat \<Rightarrow> nat list \<Rightarrow> error + 'a mat" where
  "get_rows m idxs =
     bind_err (map_err (\<lambda>i. index1 (rows m) (int i)) idxs) (\<lambda>rs. Inr (Mat (ncols m) rs))"

text \<open>The batches of an epoch: the permutation cut into pieces of \<open>batch_size\<close>, the last
  one shorter when the permutation does not divide.\<close>

fun chunks :: "nat \<Rightarrow> nat \<Rightarrow> 'a list \<Rightarrow> 'a list list" where
  "chunks fuel n xs =
     (case fuel of
        0 \<Rightarrow> []
      | Suc fuel' \<Rightarrow> if xs = [] \<or> n = 0 then [] else take n xs # chunks fuel' n (drop n xs))"

definition batches_of :: "nat \<Rightarrow> 'a list \<Rightarrow> 'a list list" where
  "batches_of n xs = chunks (length xs) n xs"

text \<open>The keyword arguments of \<^verbatim>\<open>learn_activation_addition\<close> that are not data.\<close>

record hyper =
  act_name :: string
  lr :: real
  weight_decay :: real
  neutral_loss_method :: string
  neutral_loss_beta :: real
  num_epochs :: int
  batch_size :: int
  seed :: int
  do_print :: bool
  use_wandb :: bool

text \<open>
  Lines 232--270, one batch: the forward pass under the hooks, the loss against the cached
  baseline, the backward pass and the optimiser's step on the steering vector (the tensor
  at address \<open>a\<close>), and the logging of the step. The loop carries the optimiser's state
  and the count of batches.
\<close>

definition optimizer_step ::
  "env \<Rightarrow> hyper \<Rightarrow> nat \<Rightarrow> opt_state \<Rightarrow> real list \<Rightarrow> opt_state io" where
  "optimizer_step E H a opt grad w =
     (case adamw E (lr H) (weight_decay H) opt (heap w ! a) grad of
        (v, opt') \<Rightarrow> (Inr opt', w\<lparr>heap := (heap w)[a := v]\<rparr>))"

definition log_step :: "hyper \<Rightarrow> nat \<Rightarrow> scalar \<Rightarrow> unit io" where
  "log_step H epoch loss =
     (if use_wandb H then modify_io (\<lambda>w. w\<lparr>wandb_log := wandb_log w @ [(epoch, loss)]\<rparr>)
      else return_io ())"

definition train_batch ::
  "env \<Rightarrow> hyper \<Rightarrow> nat \<Rightarrow> dataset \<Rightarrow> nat \<Rightarrow> opt_state \<times> nat \<Rightarrow> nat list
   \<Rightarrow> (opt_state \<times> nat) io" where
  "train_batch E H a ds epoch st idxs =
     bind_io (lift_io (get_rows (tokens ds) idxs)) (\<lambda>b_tokens.
     bind_io (lift_io (map_err (\<lambda>i. index1 (aligned ds) (int i)) idxs)) (\<lambda>b_aligned.
     bind_io (\<lambda>w. (run_model E w b_tokens, w)) (\<lambda>loss_per_token.
     bind_io (lift_io (case normal_loss ds of
                         None \<Rightarrow> Inl KeyError
                       | Some nl \<Rightarrow> get_rows nl idxs)) (\<lambda>b_normal.
     bind_io (lift_io (batch_loss (neutral_loss_method H) (neutral_loss_beta H)
                         loss_per_token b_normal b_aligned)) (\<lambda>loss.
     bind_io (\<lambda>w. (backward E (fwd_hooks w) (heap w) a b_tokens b_normal b_aligned, w)) (\<lambda>grad.
     bind_io (optimizer_step E H a (fst st) grad) (\<lambda>opt'.
     bind_io (log_step H epoch loss) (\<lambda>_.
     return_io (opt', Suc (snd st))))))))))"

text \<open>
  Lines 229--280, one epoch: the loader draws a permutation from its generator and cuts
  it into batches; after the batches the mean loss is printed (a division by the batch
  count) and, with logging, the checkpoint of the steering vector is written into the
  directory named after the current run (\<^verbatim>\<open>wandb.run.name\<close>). The loop
  over the epochs carries the optimiser's state and the state of the loader's generator.
\<close>

definition save_checkpoint :: "hyper \<Rightarrow> nat \<Rightarrow> nat \<Rightarrow> unit io" where
  "save_checkpoint H a epoch w =
     (if use_wandb H
      then case active_run w of
             None \<Rightarrow> (Inl AttributeError, w)
           | Some run_name \<Rightarrow>
               if run_name \<in> set (dirs w)
               then (Inr (), w\<lparr>files := files w @ [(checkpoint_path run_name epoch, heap w ! a)]\<rparr>)
               else (Inl OSError, w)
      else (Inr (), w))"

definition train_epoch ::
  "env \<Rightarrow> hyper \<Rightarrow> nat \<Rightarrow> dataset \<Rightarrow> opt_state \<times> nat \<Rightarrow> nat
   \<Rightarrow> (opt_state \<times> nat) io" where
  "train_epoch E H a ds st epoch =
     (case randperm E (snd st) (nrows (tokens ds)) of
        (perm, gen') \<Rightarrow>
          bind_io (foldM_io (train_batch E H a ds epoch) (fst st, 0)
                     (batches_of (nat (batch_size H)) perm)) (\<lambda>(opt', batch_cnt).
          bind_io (if do_print H \<and> batch_cnt = 0 then raise_io ZeroDivisionError
                   else return_io ()) (\<lambda>_.
          bind_io (save_checkpoint H a epoch) (\<lambda>_.
          return_io (opt', gen')))))"

definition train_epochs ::
  "env \<Rightarrow> hyper \<Rightarrow> nat \<Rightarrow> dataset \<Rightarrow> (opt_state \<times> nat) io" where
  "train_epochs E H a ds =
     foldM_io (train_epoch E H a ds)
       ((0, replicate (d_model E) 0, replicate (d_model E) 0), seed_state E (seed H))
       [0 ..< nat (num_epochs H)]"

text \<open>
  Lines 189--280, the body of \<^verbatim>\<open>with manager\<close>: the global generator is seeded, the
  dataset is built with the model as it is (baseline losses), the steering vector is
  drawn from the global generator and allocated, the loader is created (a batch size that
  is not positive raises), and the epochs run inside \<^verbatim>\<open>with model.hooks(...)\<close>, the hook
  being \<^verbatim>\<open>hook_fn\<close> closed over the steering vector. The value is the vector's address.
\<close>

definition new_steering_vector :: "env \<Rightarrow> nat io" where
  "new_steering_vector E w =
     (case randn E (global_rng w) (d_model E) of
        (v, g) \<Rightarrow> (Inr (length (heap w)), w\<lparr>heap := heap w @ [v], global_rng := g\<rparr>))"

definition steering_hook :: "nat \<Rightarrow> closure" where
  "steering_hook a h activation = hook_fn (h ! a) activation"

definition training_body ::
  "env \<Rightarrow> hyper \<Rightarrow> (string \<times> int mat) list \<Rightarrow> string list \<Rightarrow> string list option
   \<Rightarrow> nat io" where
  "training_body E H tokens_by_label aligned_labels opposed_labels =
     bind_io (modify_io (\<lambda>w. w\<lparr>global_rng := seed_state E (seed H)\<rparr>)) (\<lambda>_.
     bind_io (\<lambda>w. (AlignedTokensDataset tokens_by_label aligned_labels opposed_labels
                      (Some (run_model E w)) (batch_size H), w)) (\<lambda>ds.
     bind_io (new_steering_vector E) (\<lambda>a.
     bind_io (if batch_size H \<le> 0 then raise_io ValueError else return_io ()) (\<lambda>_.
     bind_io (with_io (hooks_enter E (act_name H) (steering_hook a)) hooks_exit
                (\<lambda>_. train_epochs E H a ds)) (\<lambda>_.
     return_io a)))))"

text \<open>
  The whole function: the assertion on the neutral-loss method, the start of the logging,
  the body inside \<^verbatim>\<open>with manager\<close>, then, after the \<^verbatim>\<open>with\<close> statement, the removal of the
  run directory (with logging) and the return of the detached steering vector.
\<close>

definition learn_activation_addition ::
  "env \<Rightarrow> hyper \<Rightarrow> (string \<times> int mat) list \<Rightarrow> string list \<Rightarrow> string list option
   \<Rightarrow> real list io" where
  "learn_activation_addition E H tokens_by_label aligned_labels opposed_labels =
     (if neutral_loss_method H \<notin> set [''abs_of_mean'', ''mean_of_abs'']
      then raise_io AssertionError
      else bind_io (start_logging E (use_wandb H)) (\<lambda>run.
           bind_io (with_io (return_io run) manager_exit
                      (\<lambda>_. training_body E H tokens_by_label aligned_labels opposed_labels))
             (\<lambda>a.
           bind_io (rmtree run) (\<lambda>_.
           (\<lambda>w. (Inr (heap w ! a), w))))))"

subsection \<open>A small model for concrete runs\<close>

text \<open>
  A model of width 2 with two hook sites: \<open>resid\<close>, whose activation has the model's width,
  and \<open>attn\<close>, whose activation has width 3. Its forward pass hands every registered hook
  a zero activation of its site and fails with what the hook raises; the loss of every
  token (a next-token loss, one entry less than tokens per row) is the sum of what the
  hooks returned. The generators count, the optimiser is plain gradient descent.
\<close>

definition site_width :: "string \<Rightarrow> nat" where
  "site_width name = (if name = ''attn'' then 3 else 2)"

fun apply_hooks ::
  "(string \<times> (real act \<Rightarrow> error + real act)) list \<Rightarrow> nat \<Rightarrow> nat \<Rightarrow> error + real" where
  "apply_hooks [] B P = Inr 0"
| "apply_hooks ((name, h) # hs) B P =
     (case h (Act P (site_width name) (replicate B (replicate P (replicate (site_width name) 0)))) of
        Inl e \<Rightarrow> Inl e
      | Inr out \<Rightarrow>
          (case apply_hooks hs B P of
             Inl e \<Rightarrow> Inl e
           | Inr x \<Rightarrow> Inr (x + sum_list (concat (concat (entries out))))))"

definition demo_forward ::
  "(string \<times> (real act \<Rightarrow> error + real act)) list \<Rightarrow> int mat \<Rightarrow> error + real mat" where
  "demo_forward hs t =
     (case apply_hooks hs (nrows t) (ncols t) of
        Inl e \<Rightarrow> Inl e
      | Inr x \<Rightarrow> Inr (Mat (ncols t - 1) (replicate (nrows t) (replicate (ncols t - 1) x))))"

definition demo_env :: env where
  "demo_env =
     \<lparr>hook_points = [''resid'', ''attn''], d_model = 2, forward = demo_forward,
      backward = (\<lambda>hs h a t n tg. Inr [1, 1]),
      seed_state = (\<lambda>s. nat \<bar>s\<bar>),
      randn = (\<lambda>g n. (replicate n (real g), Suc g)),
      randperm = (\<lambda>g n. (rev [0 ..< n], Suc g)),
      adamw = (\<lambda>l wd opt p g. (map (\<lambda>(x, y). x - l * y) (zip p g), opt)),
      run_name_of = (\<lambda>n. ''run'')\<rparr>"

definition demo_hyper :: hyper where
  "demo_hyper =
     \<lparr>act_name = ''resid'', lr = 1, weight_decay = 0, neutral_loss_method = ''abs_of_mean'',
      neutral_loss_beta = 1, num_epochs = 2, batch_size = 2, seed = 3, do_print = True,
      use_wandb = True\<rparr>"

definition demo_world :: "nat \<Rightarrow> world" where
  "demo_world g =
     \<lparr>fwd_hooks = [], heap = [], global_rng = g, dirs = [], files = [], active_run = None,
      runs_started = 0, wandb_log = []\<rparr>"

definition demo_tokens :: "(string \<times> int mat) list" where
  "demo_tokens = [(''a'', Mat 2 [[1, 2], [3, 4]]), (''b'', Mat 2 [[5, 6]])]"

subsection \<open>The word-count metric\<close>

text \<open>
  \<^verbatim>\<open>get_word_count_metric\<close> of \<^verbatim>\<open>metrics.py\<close>, on strings of ASCII characters: \<^verbatim>\<open>str.lower\<close>,
  the pattern \<^verbatim>\<open>\W\<close> (any character that is no letter, digit or underscore), \<^verbatim>\<open>str.split\<close>
  at runs of white space, and \<^verbatim>\<open>list.count\<close>.
\<close>

definition lower_char :: "char \<Rightarrow> char" where
  "lower_char c =
     (if 65 \<le> (of_char c :: nat) \<and> (of_char c :: nat) \<le> 90 then char_of (of_char c + 32 :: nat)
      else c)"

definition is_word_char :: "char \<Rightarrow> bool" where
  "is_word_char c =
     (let n = (of_char c :: nat)
      in (48 \<le> n \<and> n \<le> 57) \<or> (65 \<le> n \<and> n \<le> 90) \<or> (97 \<le> n \<and> n \<le> 122) \<or> n = 95)"

definition is_space :: "char \<Rightarrow> bool" where
  "is_space c = (let n = (of_char c :: nat) in (9 \<le> n \<and> n \<le> 13) \<or> (28 \<le> n \<and> n \<le> 32))"

fun split_ws :: "string \<Rightarrow> string \<Rightarrow> string list" where
  "split_ws cur [] = (if cur = [] then [] else [cur])"
| "split_ws cur (c # cs) =
     (if is_space c then (if cur = [] then split_ws [] cs else cur # split_ws [] cs)
      else split_ws (cur @ [c]) cs)"

text \<open>
  The metric function the factory returns (lines 78--95): the words and the strings are
  lowered unless the comparison is case sensitive; every string is cleaned, split and its
  tokens counted against the words; the counts become a one-column table whose index is
  the sequence \<open>strs\<close> as given. A table is the list of its rows, index first.
\<close>

definition get_word_count_metric ::
  "string list \<Rightarrow> bool \<Rightarrow> string list \<Rightarrow> (string \<times> nat) list" where
  "get_word_count_metric words case_sensitive strs =
     (let words' = (if \<not> case_sensitive then map (map lower_char) words else words);
          strs_cmp = (if \<not> case_sensitive then map (map lower_char) strs else strs);
          counts = map (\<lambda>str_this.
                     let toks = split_ws [] (map (\<lambda>c. if is_word_char c then c else CHR '' '')
                                               str_this)
                     in sum_list (map (count_list toks) words')) strs_cmp
      in zip strs counts)"

subsection \<open>Predicates on computations\<close>

text \<open>A computation leaves the model's hook registry as it found it, however it ends.\<close>

definition keeps_hooks :: "'a io \<Rightarrow> bool" where
  "keeps_hooks f \<longleftrightarrow> (\<forall>w. fwd_hooks (snd (f w)) = fwd_hooks w)"

text \<open>
  Two worlds hold the same model when the hook registries and the tensors agree; they are
  related for a run when, moreover, the global generators are in the same state and, with
  logging, each has an active run whose directory exists. A computation respects a relation
  when from related worlds it gives the same outcome and related worlds.
\<close>

definition ok_run :: "hyper \<Rightarrow> world \<Rightarrow> bool" where
  "ok_run H w \<longleftrightarrow> (use_wandb H \<longrightarrow> (\<exists>n. active_run w = Some n \<and> n \<in> set (dirs w)))"

definition same_model :: "world \<Rightarrow> world \<Rightarrow> bool" where
  "same_model w1 w2 \<longleftrightarrow> fwd_hooks w1 = fwd_hooks w2 \<and> heap w1 = heap w2"

definition related :: "hyper \<Rightarrow> world \<Rightarrow> world \<Rightarrow> bool" where
  "related H w1 w2 \<longleftrightarrow>
     same_model w1 w2 \<and> global_rng w1 = global_rng w2 \<and> ok_run H w1 \<and> ok_run H w2"

definition sim :: "(world \<Rightarrow> world \<Rightarrow> bool) \<Rightarrow> 'a io \<Rightarrow> bool" where
  "sim R f \<longleftrightarrow> (\<forall>w1 w2. R w1 w2 \<longrightarrow> fst (f w1) = fst (f w2) \<and> R (snd (f w1)) (snd (f w2)))"

section \<open>Properties\<close>

subsection \<open>Helper lemmas on fallible maps\<close>

lemma map_err_Inr:
  "(\<And>x. x \<in> set xs \<Longrightarrow> f x = Inr (g x)) \<Longrightarrow> map_err f xs = Inr (map g xs)"
  by (induction xs) auto

lemma map_err_map:
  "(\<And>x. x \<in> set xs \<Longrightarrow> f (h x) = Inr (g x)) \<Longrightarrow>
   map_err f (map h xs) = Inr (map g xs)"
  by (induction xs) auto

subsection \<open>Windowing\<close>

lemma arange_pos:
  "0 < step \<Longrightarrow> 0 \<le> e \<Longrightarrow>
   arange 0 e step = Inr (map (\<lambda>k. int k * step) [0 ..< nat ((e + step - 1) div step)])"
  by (simp add: arange_def)

lemma offsets_bound:
  assumes "0 < step" "k < nat ((e + step - 1) div step)"
  shows "int k * step < e"
proof -
  have "int k < (e + step - 1) div step" using assms by linarith
  then have "int k + 1 \<le> (e + step - 1) div step" by simp
  then have "(int k + 1) * step \<le> (e + step - 1) div step * step"
    using assms(1) by (simp add: mult_right_mono)
  also have "\<dots> \<le> e + step - 1"
    using assms(1)
    by (metis mult.commute pos_mod_sign add.commute le_add_same_cancel2 mult_div_mod_eq)
  finally show ?thesis by (simp add: algebra_simps)
qed

lemma window_row:
  assumes "off + L \<le> length toks"
  shows "map_err (index1 toks) (map (\<lambda>c. c + int off) (map (\<lambda>k. int k) [0 ..< L]))
         = Inr (take L (drop off toks))"
proof -
  have "map_err (index1 toks) (map (\<lambda>c. c + int off) (map (\<lambda>k. int k) [0 ..< L]))
        = Inr (map (\<lambda>i. toks ! nat i) (map (\<lambda>c. c + int off) (map (\<lambda>k. int k) [0 ..< L])))"
    using assms by (intro map_err_Inr) (auto simp: index1_def)
  also have "map (\<lambda>i. toks ! nat i) (map (\<lambda>c. c + int off) (map (\<lambda>k. int k) [0 ..< L]))
        = take L (drop off toks)"
    using assms by (auto simp: list_eq_iff_nth_eq nat_add_distrib add.commute)
  finally show ?thesis .
qed

text \<open>
  What the code computes for a positive stride and a window that fits: the windows at the
  offsets \<open>0, S, 2S, \<dots>\<close> that are \<^emph>\<open>strictly\<close> below \<open>N - L\<close>, that is
  \<open>\<lceil>(N - L) / S\<rceil>\<close> windows, window \<open>i\<close> being \<^verbatim>\<open>tokens[i*S : i*S + L]\<close>.
\<close>

theorem token_snippets_code:
  assumes "0 < stride" "0 \<le> context_len" "context_len \<le> int (length toks)"
  shows "token_snippets toks context_len stride =
         Inr (map (\<lambda>i. take (nat context_len) (drop (i * nat stride) toks))
                [0 ..< nat ((int (length toks) - context_len + stride - 1) div stride)])"
proof -
  let ?m = "nat ((int (length toks) - context_len + stride - 1) div stride)"
  let ?L = "nat context_len"
  have cols: "arange 0 context_len 1 = Inr (map (\<lambda>k. int k) [0 ..< ?L])"
    using assms(2) by (simp add: arange_def)
  have offs: "arange 0 (int (length toks) - context_len) stride
              = Inr (map (\<lambda>k. int k * stride) [0 ..< ?m])"
    using assms by (simp add: arange_pos)
  have inds: "window_inds (length toks) context_len stride
              = Inr (map (\<lambda>off. map (\<lambda>c. c + off) (map (\<lambda>k. int k) [0 ..< ?L]))
                      (map (\<lambda>k. int k * stride) [0 ..< ?m]))"
    by (simp add: window_inds_def cols offs)
  have row: "map_err (index1 toks) (map (\<lambda>c. c + int k * stride) (map (\<lambda>k. int k) [0 ..< ?L]))
             = Inr (take ?L (drop (k * nat stride) toks))" if "k < ?m" for k
  proof -
    have "int k * stride < int (length toks) - context_len"
      using offsets_bound [OF assms(1) that] .
    moreover have "int (k * nat stride) = int k * stride" using assms(1) by simp
    ultimately have "k * nat stride + ?L \<le> length toks" using assms(2) by linarith
    from window_row [OF this] show ?thesis
      by (simp only: \<open>int (k * nat stride) = int k * stride\<close>)
  qed
  have "map_err (map_err (index1 toks))
          (map (\<lambda>off. map (\<lambda>c. c + off) (map (\<lambda>k. int k) [0 ..< ?L]))
             (map (\<lambda>k. int k * stride) [0 ..< ?m]))
        = Inr (map (\<lambda>k. take ?L (drop (k * nat stride) toks)) [0 ..< ?m])"
    unfolding map_map
    by (rule map_err_map) (use row in simp)
  then show ?thesis by (simp add: token_snippets_def inds)
qed

theorem token_snippets_code_witness:
  "token_snippets [10, 11, 12, 13, 14, 15, 16 :: int] 4 2 = Inr [[10, 11, 12, 13], [12, 13, 14, 15]]"
proof -
  have "token_snippets [10, 11, 12, 13, 14, 15, 16 :: int] 4 2 =
        Inr (map (\<lambda>i. take (nat 4) (drop (i * nat 2) [10, 11, 12, 13, 14, 15, 16 :: int]))
               [0 ..< nat ((int (length [10, 11, 12, 13, 14, 15, 16 :: int]) - 4 + 2 - 1) div 2)])"
    by (rule token_snippets_code) simp_all
  also have "\<dots> = Inr [[10, 11, 12, 13], [12, 13, 14, 15]]"
    by code_simp
  finally show ?thesis .
qed

text \<open>
  C2. Claimed: a label with \<open>N\<close> tokens yields \<open>\<lfloor>(N - L) / S\<rfloor> + 1\<close> snippets when \<open>N \<ge> L\<close>
  (offsets while \<open>offset + L \<le> N\<close>) and none when \<open>N < L\<close>. The code's offsets stop strictly
  before \<open>N - L\<close>: with \<open>L = 4\<close>, \<open>S = 2\<close> a text of exactly 4 tokens yields no snippet where
  the claim promises one, a text of 6 tokens yields one (the window at offset 2 is lost)
  where the claim promises two, and a text of 3 tokens makes the tensor library raise
  instead of yielding the empty result.
\<close>

theorem token_snippets_last_window_lost:
  "token_snippets [10, 11, 12, 13 :: int] 4 2 = Inr [] \<and>
   token_snippets [10, 11, 12, 13, 14, 15 :: int] 4 2 = Inr [[10, 11, 12, 13]] \<and>
   token_snippets [10, 11, 12 :: int] 4 2 = Inl RuntimeError"
  by code_simp

subsection \<open>The dataset\<close>






lemma length_concat_rows:
  "length (concat (map (\<lambda>(l, t). replicate (nrows (t::'a mat)) (l::'b)) tbl))
   = length (concat (map rows (map snd tbl)))"
  by (induction tbl) (auto simp: nrows_def)















subsection \<open>The injection hook\<close>





subsection \<open>The loss of a mini-batch\<close>






lemma select_rows_wf:
  "select_rows v tags m = Inr s \<Longrightarrow> wf_mat m \<Longrightarrow> wf_mat s"
proof -
  assume sel: "select_rows v tags m = Inr s" and wf: "wf_mat m"
  from sel have s: "s = Mat (ncols m) (map snd (filter (\<lambda>(t, r). t = v) (zip tags (rows m))))"
    by (auto simp: select_rows_def split: if_splits)
  have "set (map snd (filter (\<lambda>(t, r). t = v) (zip tags (rows m)))) \<subseteq> set (rows m)"
    by (auto dest: set_zip_rightD)
  with wf show "wf_mat s"
    unfolding s wf_mat_def list_all_iff by auto
qed














subsection \<open>The hook registry\<close>




lemma keeps_raise [simp]: "keeps_hooks (raise_io e)"
  by (simp add: keeps_hooks_def raise_io_def)






















text \<open>
  C7. Claimed: with logging, the run directory is removed when the function exits, also
  when an exception leaves the epoch loop. The directory is removed after the \<^verbatim>\<open>with\<close>
  statement, which an exception skips: a run whose hook site has another width than the
  steering vector raises in the first training forward pass; the run is finished, the
  hook is removed, and the directory \<open>run\<close>, which did not exist before, is still there.
\<close>

theorem run_directory_left_on_failure:
  "fst (learn_activation_addition demo_env (demo_hyper\<lparr>act_name := ''attn''\<rparr>) demo_tokens
          [''a''] (Some [''b'']) (demo_world 7)) = Inl RuntimeError \<and>
   dirs (demo_world 7) = [] \<and>
   dirs (snd (learn_activation_addition demo_env (demo_hyper\<lparr>act_name := ''attn''\<rparr>)
                demo_tokens [''a''] (Some [''b'']) (demo_world 7))) = [''run''] \<and>
   active_run (snd (learn_activation_addition demo_env (demo_hyper\<lparr>act_name := ''attn''\<rparr>)
                      demo_tokens [''a''] (Some [''b'']) (demo_world 7))) = None \<and>
   dirs (snd (learn_activation_addition demo_env demo_hyper demo_tokens [''a''] (Some [''b''])
                (demo_world 7))) = []"
  by code_simp

subsection \<open>Determinism\<close>

lemma simI:
  "(\<And>w1 w2. R w1 w2 \<Longrightarrow> fst (f w1) = fst (f w2) \<and> R (snd (f w1)) (snd (f w2))) \<Longrightarrow> sim R f"
  by (simp add: sim_def)

lemma simD: "sim R f \<Longrightarrow> R w1 w2 \<Longrightarrow> fst (f w1) = fst (f w2) \<and> R (snd (f w1)) (snd (f w2))"
  by (simp add: sim_def)

lemma sim_return: "sim R (return_io x)"
  by (simp add: sim_def return_io_def)

lemma sim_raise: "sim R (raise_io e)"
  by (simp add: sim_def raise_io_def)

lemma sim_lift: "sim R (lift_io r)"
  by (simp add: sim_def lift_io_def)

lemma sim_read: "(\<And>w1 w2. R w1 w2 \<Longrightarrow> g w1 = g w2) \<Longrightarrow> sim R (\<lambda>w. (g w, w))"
  by (simp add: sim_def)

lemma sim_if: "sim R f \<Longrightarrow> sim R g \<Longrightarrow> sim R (if c then f else g)"
  by simp

lemma sim_bind:
  assumes f: "sim R f" and g: "\<And>x. sim R (g x)"
  shows "sim R (bind_io f g)"
proof (rule simI)
  fix w1 w2 assume R: "R w1 w2"
  obtain r1 u1 where f1: "f w1 = (r1, u1)" by (cases "f w1")
  obtain r2 u2 where f2: "f w2 = (r2, u2)" by (cases "f w2")
  from simD [OF f R] f1 f2 have eq: "r1 = r2" and Ru: "R u1 u2" by simp_all
  show "fst (bind_io f g w1) = fst (bind_io f g w2) \<and>
        R (snd (bind_io f g w1)) (snd (bind_io f g w2))"
  proof (cases r1)
    case (Inl e)
    with f1 f2 eq Ru show ?thesis by (auto simp: bind_io_def)
  next
    case (Inr x)
    with f1 f2 eq simD [OF g Ru, of x] show ?thesis by (auto simp: bind_io_def)
  qed
qed

lemma sim_foldM:
  assumes "\<And>s x. sim R (f s x)"
  shows "sim R (foldM_io f s xs)"
  by (induction xs arbitrary: s) (simp_all add: sim_return sim_bind assms)

lemma sim_with:
  assumes en: "sim R enter" and body: "\<And>c. sim R (body c)"
    and ex: "\<And>c w1 w2. R w1 w2 \<Longrightarrow> R (exit c w1) (exit c w2)"
  shows "sim R (with_io enter exit body)"
proof (rule simI)
  fix w1 w2 assume R: "R w1 w2"
  obtain r1 u1 where e1: "enter w1 = (r1, u1)" by (cases "enter w1")
  obtain r2 u2 where e2: "enter w2 = (r2, u2)" by (cases "enter w2")
  from simD [OF en R] e1 e2 have eq: "r1 = r2" and Ru: "R u1 u2" by simp_all
  show "fst (with_io enter exit body w1) = fst (with_io enter exit body w2) \<and>
        R (snd (with_io enter exit body w1)) (snd (with_io enter exit body w2))"
  proof (cases r1)
    case (Inl e)
    with e1 e2 eq Ru show ?thesis by (auto simp: with_io_def)
  next
    case (Inr c)
    obtain q1 v1 where b1: "body c u1 = (q1, v1)" by (cases "body c u1")
    obtain q2 v2 where b2: "body c u2 = (q2, v2)" by (cases "body c u2")
    from simD [OF body Ru, of c] b1 b2 have "q1 = q2" "R v1 v2" by simp_all
    with Inr e1 e2 eq b1 b2 ex show ?thesis by (auto simp: with_io_def)
  qed
qed

lemma rel_model: "related H w1 w2 \<Longrightarrow> fwd_hooks w1 = fwd_hooks w2 \<and> heap w1 = heap w2"
  by (simp add: related_def same_model_def)

lemma rel_run_model: "related H w1 w2 \<Longrightarrow> run_model E w1 = run_model E w2"
  by (auto simp: run_model_def fun_eq_iff dest: rel_model)

lemma sim_optimizer_step: "sim (related H) (optimizer_step E H' a opt grad)"
  by (rule simI)
     (auto simp: optimizer_step_def related_def same_model_def ok_run_def split: prod.splits)

lemma sim_log_step: "sim (related H) (log_step H' epoch loss)"
  by (rule simI)
     (auto simp: log_step_def modify_io_def return_io_def related_def same_model_def ok_run_def)

lemma sim_save_checkpoint: "sim (related H) (save_checkpoint H a epoch)"
  by (rule simI)
     (auto simp: save_checkpoint_def related_def same_model_def ok_run_def split: option.splits)

lemma sim_train_batch: "sim (related H) (train_batch E H a ds epoch st idxs)"
  unfolding train_batch_def
proof (intro sim_bind sim_lift sim_return sim_optimizer_step sim_log_step)
  fix b_tokens :: "int mat"
  show "sim (related H) (\<lambda>w. (run_model E w b_tokens, w))"
    by (rule sim_read) (simp add: rel_run_model)
next
  fix b_tokens :: "int mat" and b_normal :: "real mat" and b_aligned :: "int list"
  show "sim (related H) (\<lambda>w. (backward E (fwd_hooks w) (heap w) a b_tokens b_normal b_aligned, w))"
    by (rule sim_read) (auto dest: rel_model)
qed

lemma sim_train_epoch: "sim (related H) (train_epoch E H a ds st epoch)"
proof -
  obtain perm gen' where p: "randperm E (snd st) (nrows (tokens ds)) = (perm, gen')"
    by (cases "randperm E (snd st) (nrows (tokens ds))")
  show ?thesis
    unfolding train_epoch_def p prod.case
  proof (rule sim_bind)
    show "sim (related H) (foldM_io (train_batch E H a ds epoch) (fst st, 0)
                         (batches_of (nat (batch_size H)) perm))"
      by (rule sim_foldM) (rule sim_train_batch)
  next
    fix x :: "opt_state \<times> nat"
    show "sim (related H) (case x of (opt', batch_cnt) \<Rightarrow>
            bind_io (if do_print H \<and> batch_cnt = 0 then raise_io ZeroDivisionError
                     else return_io ()) (\<lambda>_.
            bind_io (save_checkpoint H a epoch) (\<lambda>_.
            return_io (opt', gen'))))"
      by (cases x)
         (auto intro!: sim_bind sim_save_checkpoint sim_return sim_raise)
  qed
qed

lemma sim_train_epochs: "sim (related H) (train_epochs E H a ds)"
  unfolding train_epochs_def by (intro sim_foldM sim_train_epoch)

lemma sim_hooks_enter: "sim (related H) (hooks_enter E name hook)"
  by (rule simI) (auto simp: hooks_enter_def related_def same_model_def ok_run_def)

lemma rel_hooks_exit: "related H w1 w2 \<Longrightarrow> related H (hooks_exit c w1) (hooks_exit c w2)"
  by (auto simp: hooks_exit_def related_def same_model_def ok_run_def)

lemma sim_new_steering_vector: "sim (related H) (new_steering_vector E)"
  by (rule simI)
     (auto simp: new_steering_vector_def related_def same_model_def ok_run_def split: prod.splits)

lemma sim_training_rest:
  "sim (related H)
     (bind_io (\<lambda>w. (AlignedTokensDataset tbl al ol (Some (run_model E w)) (batch_size H), w)) (\<lambda>ds.
      bind_io (new_steering_vector E) (\<lambda>a.
      bind_io (if batch_size H \<le> 0 then raise_io ValueError else return_io ()) (\<lambda>_.
      bind_io (with_io (hooks_enter E (act_name H) (steering_hook a)) hooks_exit
                 (\<lambda>_. train_epochs E H a ds)) (\<lambda>_.
      return_io a)))))"
proof (intro sim_bind sim_new_steering_vector sim_with sim_hooks_enter sim_train_epochs
    sim_return sim_if sim_raise)
  show "sim (related H)
          (\<lambda>w. (AlignedTokensDataset tbl al ol (Some (run_model E w)) (batch_size H), w))"
    by (rule sim_read) (simp add: rel_run_model)
qed (rule rel_hooks_exit)

lemma training_body_deterministic:
  assumes "same_model w1 w2" "ok_run H w1" "ok_run H w2"
  shows "fst (training_body E H tbl al ol w1) = fst (training_body E H tbl al ol w2) \<and>
         related H (snd (training_body E H tbl al ol w1)) (snd (training_body E H tbl al ol w2))"
proof -
  let ?s = "\<lambda>w. w\<lparr>global_rng := seed_state E (seed H)\<rparr>"
  have "related H (?s w1) (?s w2)"
    using assms by (simp add: related_def same_model_def ok_run_def)
  from simD [OF sim_training_rest this]
  show ?thesis by (simp add: training_body_def bind_io_def modify_io_def)
qed

lemma start_logging_ok:
  assumes "start_logging E (use_wandb H) w = (Inr run, s)"
  shows "fwd_hooks s = fwd_hooks w" "heap s = heap w" "ok_run H s"
  using assms
  by (auto simp: start_logging_def Let_def ok_run_def split: if_splits)

lemma with_manager:
  "with_io (return_io run) manager_exit (\<lambda>_. body) w
   = (fst (body w), manager_exit run (snd (body w)))"
  by (simp add: with_io_def return_io_def split: prod.splits)

lemma manager_exit_heap: "heap (manager_exit run w) = heap w"
  by (simp add: manager_exit_def split: option.splits)

lemma rmtree_heap: "rmtree run w = (r, u) \<Longrightarrow> heap u = heap w"
  by (auto simp: rmtree_def split: option.splits if_splits)

lemma learn_Inr:
  assumes "learn_activation_addition E H tbl al ol w = (Inr v, u)"
  shows "\<exists>run s a t. start_logging E (use_wandb H) w = (Inr run, s) \<and>
           training_body E H tbl al ol s = (Inr a, t) \<and> v = heap t ! a"
proof -
  from assms have m: "neutral_loss_method H \<in> set [''abs_of_mean'', ''mean_of_abs'']"
    by (auto simp: learn_activation_addition_def raise_io_def split: if_splits)
  obtain r0 s where sl: "start_logging E (use_wandb H) w = (r0, s)"
    by (cases "start_logging E (use_wandb H) w")
  obtain rb t where tb: "training_body E H tbl al ol s = (rb, t)"
    by (cases "training_body E H tbl al ol s")
  from assms m sl obtain run where r0: "r0 = Inr run"
    by (cases r0) (auto simp: learn_activation_addition_def bind_io_def)
  from assms m sl r0 tb obtain a where rb: "rb = Inr a"
    by (cases rb) (auto simp: learn_activation_addition_def bind_io_def with_manager)
  obtain r3 u3 where rm: "rmtree run (manager_exit run t) = (r3, u3)"
    by (cases "rmtree run (manager_exit run t)")
  from assms m sl r0 tb rb rm have "v = heap u3 ! a"
    by (cases r3) (auto simp: learn_activation_addition_def bind_io_def with_manager)
  with rmtree_heap [OF rm] have "v = heap t ! a" by (simp add: manager_exit_heap)
  with sl r0 tb rb show ?thesis by blast
qed

lemma learn_without_logging:
  assumes "\<not> use_wandb H"
    and "neutral_loss_method H \<in> set [''abs_of_mean'', ''mean_of_abs'']"
  shows "fst (learn_activation_addition E H tbl al ol w)
         = (case fst (training_body E H tbl al ol w) of
              Inl e \<Rightarrow> Inl e
            | Inr a \<Rightarrow> Inr (heap (snd (training_body E H tbl al ol w)) ! a))"
proof -
  obtain rb t where tb: "training_body E H tbl al ol w = (rb, t)"
    by (cases "training_body E H tbl al ol w")
  show ?thesis
    using assms tb
    by (cases rb)
       (auto simp: learn_activation_addition_def bind_io_def with_manager start_logging_def
         rmtree_def manager_exit_def)
qed

text \<open>
  C8. Two runs with the same arguments (the seed among them) on the same model return the
  same steering vector, whatever the state of the global random generator, of the file
  system and of the logging backend before each: the vector is drawn after the global
  generator was seeded from \<open>seed\<close>, and the batches are shuffled by a generator seeded
  from \<open>seed\<close>. Without logging the two runs also fail alike.
\<close>

theorem seeded_determinism:
  assumes "fwd_hooks w1 = fwd_hooks w2" and "heap w1 = heap w2"
  shows "(\<forall>v1 u1 v2 u2.
            learn_activation_addition E H tbl al ol w1 = (Inr v1, u1) \<longrightarrow>
            learn_activation_addition E H tbl al ol w2 = (Inr v2, u2) \<longrightarrow> v1 = v2) \<and>
         (\<not> use_wandb H \<longrightarrow>
            fst (learn_activation_addition E H tbl al ol w1)
            = fst (learn_activation_addition E H tbl al ol w2))"
proof (intro conjI allI impI)
  fix v1 u1 v2 u2
  assume l1: "learn_activation_addition E H tbl al ol w1 = (Inr v1, u1)"
    and l2: "learn_activation_addition E H tbl al ol w2 = (Inr v2, u2)"
  from learn_Inr [OF l1] obtain run1 s1 a1 t1 where
    s1: "start_logging E (use_wandb H) w1 = (Inr run1, s1)"
    and b1: "training_body E H tbl al ol s1 = (Inr a1, t1)" and v1: "v1 = heap t1 ! a1"
    by blast
  from learn_Inr [OF l2] obtain run2 s2 a2 t2 where
    s2: "start_logging E (use_wandb H) w2 = (Inr run2, s2)"
    and b2: "training_body E H tbl al ol s2 = (Inr a2, t2)" and v2: "v2 = heap t2 ! a2"
    by blast
  have "same_model s1 s2"
    using start_logging_ok(1,2) [OF s1] start_logging_ok(1,2) [OF s2] assms
    by (simp add: same_model_def)
  from training_body_deterministic [OF this start_logging_ok(3) [OF s1]
      start_logging_ok(3) [OF s2], of E tbl al ol] b1 b2
  have "a1 = a2" "related H t1 t2" by simp_all
  with v1 v2 show "v1 = v2" by (simp add: related_def same_model_def)
next
  assume nolog: "\<not> use_wandb H"
  show "fst (learn_activation_addition E H tbl al ol w1)
        = fst (learn_activation_addition E H tbl al ol w2)"
  proof (cases "neutral_loss_method H \<in> set [''abs_of_mean'', ''mean_of_abs'']")
    case False
    then show ?thesis by (simp add: learn_activation_addition_def raise_io_def)
  next
    case True
    have sm: "same_model w1 w2" using assms by (simp add: same_model_def)
    have ok: "ok_run H w1" "ok_run H w2" using nolog by (simp_all add: ok_run_def)
    from training_body_deterministic [OF sm ok, of E tbl al ol]
    have "fst (training_body E H tbl al ol w1) = fst (training_body E H tbl al ol w2)"
      and "heap (snd (training_body E H tbl al ol w1)) = heap (snd (training_body E H tbl al ol w2))"
      by (simp_all add: related_def same_model_def)
    then show ?thesis
      by (simp add: learn_without_logging [OF nolog True] split: sum.splits)
  qed
qed

theorem seeded_determinism_witness:
  "fst (learn_activation_addition demo_env (demo_hyper\<lparr>use_wandb := False\<rparr>) demo_tokens
          [''a''] (Some [''b'']) (demo_world 7))
   = fst (learn_activation_addition demo_env (demo_hyper\<lparr>use_wandb := False\<rparr>) demo_tokens
            [''a''] (Some [''b'']) (demo_world 99)) \<and>
   fst (learn_activation_addition demo_env (demo_hyper\<lparr>use_wandb := False\<rparr>) demo_tokens
          [''a''] (Some [''b'']) (demo_world 7)) = Inr [- 1, - 1]"
proof -
  have h: "fwd_hooks (demo_world 7) = fwd_hooks (demo_world 99)"
    and p: "heap (demo_world 7) = heap (demo_world 99)"
    by (simp_all add: demo_world_def)
  have n: "\<not> use_wandb (demo_hyper\<lparr>use_wandb := False\<rparr>)" by simp
  have v: "fst (learn_activation_addition demo_env (demo_hyper\<lparr>use_wandb := False\<rparr>)
             demo_tokens [''a''] (Some [''b'']) (demo_world 7)) = Inr [- 1, - 1]"
    by code_simp
  from seeded_determinism [OF h p, of demo_env "demo_hyper\<lparr>use_wandb := False\<rparr>"
      demo_tokens "[''a'']" "Some [''b'']"] n v
  show ?thesis by simp
qed

subsection \<open>The word-count metric\<close>

text \<open>
  C10. Claimed: the table a metric function returns has exactly one row per distinct input
  string. The table is indexed by the sequence of inputs as given: the same string twice
  gives two rows, where there is one distinct input.
\<close>

theorem metric_rows_counterexample:
  "get_word_count_metric [''Cat''] False [''a cat, a CAT'', ''a cat, a CAT'']
     = [(''a cat, a CAT'', 2), (''a cat, a CAT'', 2)] \<and>
   length (get_word_count_metric [''Cat''] False [''a cat, a CAT'', ''a cat, a CAT'']) = 2 \<and>
   card (set [''a cat, a CAT'', ''a cat, a CAT'']) = 1"
  by code_simp

text \<open>
  C10, amended. The table of the word-count metric is indexed by the input strings and has
  exactly one row per element of the input sequence, in the order of the sequence (so one
  row per distinct input exactly when the inputs are distinct).
\<close>

theorem metric_rows:
  "map fst (get_word_count_metric words case_sensitive strs) = strs \<and>
   length (get_word_count_metric words case_sensitive strs) = length strs"
  by (simp add: get_word_count_metric_def Let_def)

theorem metric_rows_witness:
  "map fst (get_word_count_metric [''Cat''] True [''a Cat'', ''b'', ''a Cat''])
   = [''a Cat'', ''b'', ''a Cat''] \<and>
   get_word_count_metric [''Cat''] True [''a Cat'', ''b'', ''a Cat'']
   = [(''a Cat'', 1), (''b'', 0), (''a Cat'', 1)]"
proof -
  have "get_word_count_metric [''Cat''] True [''a Cat'', ''b'', ''a Cat'']
        = [(''a Cat'', 1), (''b'', 0), (''a Cat'', 1)]"
    by code_simp
  with metric_rows [of "[''Cat'']" True "[''a Cat'', ''b'', ''a Cat'']"] show ?thesis
    by simp
qed

end
